theory Spec2Isabelle
  imports Main "HOL-Library.Sublist" "HOL-Library.Multiset" "HOL-Library.Word"
begin

section \<open>Strings\<close>

text \<open>
  A Go string is a sequence of bytes; it is modelled as a \<open>string\<close> (a list of 8-bit
  characters). \<open>strings.ToLower\<close> is modelled on ASCII text, where Go replaces every
  byte between \<open>'A'\<close> and \<open>'Z'\<close> by the byte \<open>'a' - 'A'\<close> above it and leaves every
  other byte as it is. (For text with bytes above 0x7F Go maps whole runes through the
  Unicode tables; that part of the library is outside this model.)
\<close>

definition toLowerByte :: "char \<Rightarrow> char" where
  "toLowerByte c =
     (case map_of (zip ''ABCDEFGHIJKLMNOPQRSTUVWXYZ'' ''abcdefghijklmnopqrstuvwxyz'') c of
        Some l \<Rightarrow> l
      | None \<Rightarrow> c)"

definition ToLower :: "string \<Rightarrow> string" where
  "ToLower s = map toLowerByte s"

text \<open>\<open>strings.Join(parts, sep)\<close>.\<close>

fun Join :: "string list \<Rightarrow> string \<Rightarrow> string" where
  "Join [] sep = []"
| "Join [p] sep = p"
| "Join (p # q # ps) sep = p @ sep @ Join (q # ps) sep"

text \<open>\<open>strings.Contains(s, sub)\<close> is \<^term>\<open>sublist sub s\<close>.\<close>

section \<open>The per-user dialogue state\<close>

definition StateChoosing :: string where
  "StateChoosing = ''choosing''"

definition StateTypingReply :: string where
  "StateTypingReply = ''typing_reply''"

definition StateTypingChoice :: string where
  "StateTypingChoice = ''typing_choice''"

text \<open>
  \<open>UserState\<close>: the \<open>Data\<close> map of a session is always allocated (\<open>NewUserState\<close>
  allocates it, and so does the decoding of a snapshot that \<open>Save\<close> wrote), so it is a
  partial function from keys to values.
\<close>

record UserState =
  State :: string
  Data :: "string \<rightharpoonup> string"
  Choice :: string

definition NewUserState :: UserState where
  "NewUserState = \<lparr>State = StateChoosing, Data = Map.empty, Choice = []\<rparr>"

text \<open>
  Go does not fix the order in which \<open>range\<close> walks a map, and the order may change from
  one loop to the next. Every function that ranges over \<open>Data\<close> therefore takes the
  order of that walk as its first argument \<open>ks\<close>: the keys as the runtime yields them.
  \<open>iteration ks data\<close> says that \<open>ks\<close> is such a walk: every key once.
  Then \<open>len(data)\<close> is \<open>length ks\<close>.
\<close>

definition iteration :: "string list \<Rightarrow> (string \<rightharpoonup> string) \<Rightarrow> bool" where
  "iteration ks data \<longleftrightarrow> distinct ks \<and> set ks = dom data"

definition factLine :: "(string \<rightharpoonup> string) \<Rightarrow> string \<Rightarrow> string" where
  "factLine data k = k @ '' - '' @ the (data k)"

definition factsToStr :: "string list \<Rightarrow> (string \<rightharpoonup> string) \<Rightarrow> string" where
  "factsToStr ks data =
     (if length ks = 0 then ''\<newline>\<newline>''
      else ''\<newline>'' @ Join (map (factLine data) ks) ''\<newline>'' @ ''\<newline>'')"

definition HandleCommandStart :: "string list \<Rightarrow> UserState \<Rightarrow> UserState \<times> string" where
  "HandleCommandStart ks u =
     (let sb = ''Hi! My name is Doctor Botter.'';
          sb = (if length ks > 0
                then sb @ '' You already told me your '' @ Join ks '', '' @
                     ''. Why don't you tell me something more about yourself? Or change anything I already know.''
                else sb @ '' I will hold a more complex conversation with you. Why don't you tell me something about yourself?'')
      in (u\<lparr>State := StateChoosing\<rparr>, sb))"

definition HandleShowData :: "string list \<Rightarrow> UserState \<Rightarrow> UserState \<times> string" where
  "HandleShowData ks u = (u, ''This is what you already told me: '' @ factsToStr ks (Data u))"

text \<open>The handlers of plain text return the reply, \<open>withKeyboard\<close> and \<open>done\<close>.\<close>

definition handleChoosing :: "UserState \<Rightarrow> string \<Rightarrow> UserState \<times> string \<times> bool \<times> bool" where
  \<open>handleChoosing u text =
     (if text = ''Age'' \<or> text = ''Favourite colour'' \<or> text = ''Number of siblings'' then
        (let choice = ToLower text; u = u\<lparr>Choice := choice\<rparr> in
         case Data u choice of
           Some existing \<Rightarrow>
             (u, ''Your '' @ choice @ ''? I already know the following about that: '' @ existing,
              False, False)
         | None \<Rightarrow>
             (u\<lparr>State := StateTypingReply\<rparr>,
              ''Your '' @ choice @ ''? Yes, I would love to hear about that!'', False, False))
      else if text = ''Something else...'' then
        (u\<lparr>State := StateTypingChoice\<rparr>,
         ''Alright, please send me the category first, for example "Most impressive skill"'',
         False, False)
      else
        (u, ''Please choose one of the options on the keyboard or type "Done".'', True, False))\<close>

definition handleTypingChoice :: "UserState \<Rightarrow> string \<Rightarrow> UserState \<times> string \<times> bool \<times> bool" where
  "handleTypingChoice u text =
     (let choice = ToLower text; u = u\<lparr>Choice := choice\<rparr> in
      case Data u choice of
        Some existing \<Rightarrow>
          (u\<lparr>State := StateTypingReply\<rparr>,
           ''Your '' @ choice @ ''? I already know the following about that: '' @ existing,
           False, False)
      | None \<Rightarrow>
          (u\<lparr>State := StateTypingReply\<rparr>,
           ''Your '' @ choice @ ''? Yes, I would love to hear about that!'', False, False))"

text \<open>
  \<open>ks\<close> is the walk of the map made by \<open>factsToStr\<close>, that is, after the new value has
  been stored.
\<close>

definition handleTypingReply ::
  "string list \<Rightarrow> UserState \<Rightarrow> string \<Rightarrow> UserState \<times> string \<times> bool \<times> bool" where
  "handleTypingReply ks u text =
     (if Choice u = [] then
        (u\<lparr>State := StateChoosing\<rparr>,
         ''I am not sure what category this belongs to. Please choose one of the options.'',
         True, False)
      else
        (let category = Choice u;
             val = ToLower text;
             u = u\<lparr>Data := (Data u)(category \<mapsto> val)\<rparr>;
             u = u\<lparr>Choice := []\<rparr>;
             u = u\<lparr>State := StateChoosing\<rparr>;
             reply = ''Neat! Just so you know, this is what you already told me:'' @
                     factsToStr ks (Data u) @
                     ''You can tell me more, or change your opinion on something.''
         in (u, reply, True, False)))"

definition HandleText ::
  "string list \<Rightarrow> UserState \<Rightarrow> string \<Rightarrow> UserState \<times> string \<times> bool \<times> bool" where
  "HandleText ks u text =
     (if text = ''Done'' then
        (let u = u\<lparr>Choice := []\<rparr>;
             reply = ''I learned these facts about you: '' @ factsToStr ks (Data u) @
                     ''Until next time!'';
             u = u\<lparr>State := []\<rparr>
         in (u, reply, False, True))
      else if State u = StateChoosing then handleChoosing u text
      else if State u = StateTypingChoice then handleTypingChoice u text
      else if State u = StateTypingReply then handleTypingReply ks u text
      else handleChoosing (u\<lparr>State := StateChoosing\<rparr>) text)"

section \<open>Sequences of operations on one session\<close>

datatype Event =
    EvStart "string list"
  | EvShowData "string list"
  | EvText "string list" string

fun exec :: "Event \<Rightarrow> UserState \<Rightarrow> UserState" where
  "exec (EvStart ks) u = fst (HandleCommandStart ks u)"
| "exec (EvShowData ks) u = fst (HandleShowData ks u)"
| "exec (EvText ks text) u = fst (HandleText ks u text)"

fun run :: "Event list \<Rightarrow> UserState \<Rightarrow> UserState" where
  "run [] u = u"
| "run (e # es) u = run es (exec e u)"

text \<open>The texts of a sequence of events, and whether an event carries a non-empty text.\<close>

fun textOf :: "Event \<Rightarrow> string option" where
  "textOf (EvText ks text) = Some text"
| "textOf _ = None"

definition nonEmptyText :: "Event \<Rightarrow> bool" where
  "nonEmptyText e \<longleftrightarrow> textOf e \<noteq> Some []"


text \<open>
  The invariant as the specification words it: \<open>Choice\<close> (the pending category) is
  non-empty exactly in the state \<open>typing_reply\<close>. \<open>typingHasChoice\<close> is one half of it.
\<close>

definition choiceInvariant :: "UserState \<Rightarrow> bool" where
  "choiceInvariant u \<longleftrightarrow> (Choice u \<noteq> [] \<longleftrightarrow> State u = StateTypingReply)"

definition typingHasChoice :: "UserState \<Rightarrow> bool" where
  "typingHasChoice u \<longleftrightarrow> (State u = StateTypingReply \<longrightarrow> Choice u \<noteq> [])"





section \<open>The dispatcher\<close>

text \<open>
  Of a Telegram message the dispatcher reads the sender (\<open>nil\<close> is \<open>None\<close>), the chat, the
  text, and the library's \<open>IsCommand()\<close> and \<open>Command()\<close>: \<open>Command\<close> is \<open>Some name\<close>
  for a command message and \<open>None\<close> for any other.
\<close>

record Message =
  From :: "64 word option"
  ChatID :: "64 word"
  Text :: string
  Command :: "string option"

datatype ReplyMarkup =
    NoMarkup
  | ReplyKeyboard "string list list" bool
  | RemoveKeyboard bool

record OutMessage =
  OutChatID :: "64 word"
  OutText :: string
  OutMarkup :: ReplyMarkup

text \<open>The registry maps a user to a pointer to its session; \<open>Some None\<close> is a nil pointer.\<close>

record Bot =
  users :: "64 word \<rightharpoonup> UserState option"

definition getUserState :: "Bot \<Rightarrow> 64 word \<Rightarrow> Bot \<times> UserState" where
  "getUserState b userID =
     (case users b userID of
        Some (Some us) \<Rightarrow> (b, us)
      | _ \<Rightarrow> (b\<lparr>users := (users b)(userID \<mapsto> Some NewUserState)\<rparr>, NewUserState))"

definition mainKeyboard :: ReplyMarkup where
  "mainKeyboard =
     ReplyKeyboard
       [[''Age'', ''Favourite colour''],
        [''Number of siblings'', ''Something else...''],
        [''Done'']]
       True"

text \<open>
  \<open>handleMessage\<close> returns the registry and the message it sends, if any. The handlers
  change the session through the pointer, which is the update of the registry below.
  After a message is sent the dispatcher calls \<open>save\<close>.
\<close>

definition handleMessage :: "string list \<Rightarrow> Bot \<Rightarrow> Message \<Rightarrow> Bot \<times> OutMessage option" where
  "handleMessage ks b msg =
     (case From msg of
        None \<Rightarrow> (b, None)
      | Some userID \<Rightarrow>
          (let (b, userState) = getUserState b userID;
               handled =
                 (case Command msg of
                    Some cmd \<Rightarrow>
                      (if cmd = ''start'' then
                         (let (u, reply) = HandleCommandStart ks userState
                          in Some (u, reply, True, False))
                       else if cmd = ''show_data'' then
                         (let (u, reply) = HandleShowData ks userState
                          in Some (u, reply, False, False))
                       else Some (userState, ''Unknown command.'', False, False))
                  | None \<Rightarrow>
                      (if Text msg = [] then None
                       else Some (HandleText ks userState (Text msg))))
           in case handled of
                None \<Rightarrow> (b, None)
              | Some (u, reply, withKeyboard, done) \<Rightarrow>
                  (let b = b\<lparr>users := (users b)(userID \<mapsto> Some u)\<rparr>;
                       removeKeyboard = done
                   in if reply = [] then (b, None)
                      else (b, Some \<lparr>OutChatID = ChatID msg, OutText = reply,
                                     OutMarkup = (if removeKeyboard then RemoveKeyboard True
                                                  else if withKeyboard then mainKeyboard
                                                  else NoMarkup)\<rparr>))))"

section \<open>Storage\<close>

text \<open>
  A path of the file system holds no file, a file that cannot be read, or a file with
  its contents; \<open>os.ReadFile\<close> returns the contents or an error, and
  \<open>errors.Is(err, os.ErrNotExist)\<close> holds of the first error only.
\<close>

datatype error = ErrNotExist | ErrPermission | ErrJSON string

datatype fileEntry = NoFile | Unreadable | Contents string

definition ReadFile :: "(string \<Rightarrow> fileEntry) \<Rightarrow> string \<Rightarrow> error + string" where
  "ReadFile fs path =
     (case fs path of
        NoFile \<Rightarrow> Inl ErrNotExist
      | Unreadable \<Rightarrow> Inl ErrPermission
      | Contents b \<Rightarrow> Inr b)"

text \<open>
  \<open>persistedData\<close>: a nil \<open>Users\<close> map is \<open>None\<close>. A caller of \<open>Load\<close> reads a nil map
  as it reads the empty one.
\<close>

record persistedData =
  Users :: "(64 word \<rightharpoonup> UserState option) option"

definition nilAsEmpty :: "('k \<rightharpoonup> 'v) option \<Rightarrow> ('k \<rightharpoonup> 'v)" where
  "nilAsEmpty m = (case m of None \<Rightarrow> Map.empty | Some f \<Rightarrow> f)"

text \<open>
  \<open>Load\<close> takes the decoder \<open>json.Unmarshal(b, &data)\<close> as its first argument: from the
  bytes and the value it decodes into, an error or the value filled in.
\<close>

definition Load ::
  "(string \<Rightarrow> persistedData \<Rightarrow> error + persistedData) \<Rightarrow> (string \<Rightarrow> fileEntry) \<Rightarrow> string \<Rightarrow>
     error + (64 word \<rightharpoonup> UserState option)" where
  "Load unmarshal fs path =
     (let data = \<lparr>Users = Some Map.empty\<rparr> in
      case ReadFile fs path of
        Inl err \<Rightarrow>
          (if err = ErrNotExist then Inr (nilAsEmpty (Users data)) else Inl err)
      | Inr b \<Rightarrow>
          (case unmarshal b data of
             Inl err \<Rightarrow> Inl err
           | Inr data \<Rightarrow>
               (let data = (if Users data = None then data\<lparr>Users := Some Map.empty\<rparr>
                            else data)
                in Inr (nilAsEmpty (Users data)))))"

section \<open>Auxiliary facts\<close>

subsection \<open>States and strings\<close>

lemma states_distinct:
  "StateChoosing \<noteq> StateTypingChoice" "StateChoosing \<noteq> StateTypingReply"
  "StateTypingChoice \<noteq> StateTypingReply" "StateTypingChoice \<noteq> StateChoosing"
  "StateTypingReply \<noteq> StateChoosing" "StateTypingReply \<noteq> StateTypingChoice"
  "StateChoosing \<noteq> []" "StateTypingChoice \<noteq> []" "StateTypingReply \<noteq> []"
  "[] \<noteq> StateChoosing" "[] \<noteq> StateTypingChoice" "[] \<noteq> StateTypingReply"
  by (simp_all add: StateChoosing_def StateTypingChoice_def StateTypingReply_def)

text \<open>
  The table of \<open>toLowerByte\<close> is Go's arithmetic on the byte: \<open>c += 'a' - 'A'\<close> for
  \<open>'A' <= c && c <= 'Z'\<close>.
\<close>

lemma toLowerByte_arith:
  "(of_char (toLowerByte c) :: nat) =
     (if 65 \<le> (of_char c :: nat) \<and> (of_char c :: nat) \<le> 90 then of_char c + 32 else of_char c)"
proof (cases c)
  case (Char b0 b1 b2 b3 b4 b5 b6 b7)
  show ?thesis unfolding Char
    by (cases b0; cases b1; cases b2; cases b3; cases b4; cases b5; cases b6; cases b7;
        simp add: toLowerByte_def)
qed

lemma ToLower_Nil_iff: "ToLower s = [] \<longleftrightarrow> s = []"
  by (simp add: ToLower_def)

lemma ToLower_Age: "ToLower ''Age'' = ''age''" "ToLower ''AGE'' = ''age''"
  by (simp_all add: ToLower_def toLowerByte_def)

lemma sublist_in_middle: "sublist x y \<Longrightarrow> sublist x (a @ y @ b)"
proof -
  assume "sublist x y"
  then obtain ps ss where "y = ps @ x @ ss" by (auto simp: sublist_def)
  then have "a @ y @ b = (a @ ps) @ x @ (ss @ b)" by simp
  then show ?thesis unfolding sublist_def by blast
qed

lemma sublist_Join: "x \<in> set xs \<Longrightarrow> sublist x (Join xs sep)"
proof (induction xs sep rule: Join.induct)
  case (1 sep)
  then show ?case by simp
next
  case (2 p sep)
  then show ?case by simp
next
  case (3 p q ps sep)
  show ?case
  proof (cases "x = p")
    case True
    then show ?thesis by simp
  next
    case False
    with 3 have "sublist x (Join (q # ps) sep)" by simp
    then have "sublist x ((p @ sep) @ Join (q # ps) sep @ [])" by (rule sublist_in_middle)
    then show ?thesis by simp
  qed
qed

lemma factLine_in_factsToStr:
  assumes "k \<in> set ks"
  shows "sublist (factLine data k) (factsToStr ks data)"
proof -
  from assms have ne: "length ks \<noteq> 0" by auto
  from assms have "factLine data k \<in> set (map (factLine data) ks)" by simp
  then have "sublist (factLine data k) (Join (map (factLine data) ks) ''\<newline>'')"
    by (rule sublist_Join)
  then have "sublist (factLine data k) (''\<newline>'' @ Join (map (factLine data) ks) ''\<newline>'' @ ''\<newline>'')"
    by (rule sublist_in_middle)
  with ne show ?thesis by (simp add: factsToStr_def)
qed

subsection \<open>Walks of the map\<close>

lemma iteration_Nil_iff: "iteration ks data \<Longrightarrow> ks = [] \<longleftrightarrow> data = Map.empty"
proof -
  assume "iteration ks data"
  then have "set ks = dom data" by (simp add: iteration_def)
  then have "ks = [] \<longleftrightarrow> dom data = {}" by (metis set_empty)
  then show ?thesis by simp
qed



subsection \<open>Single steps\<close>

lemma HandleText_Done:
  "HandleText ks u ''Done'' =
     (u\<lparr>Choice := [], State := []\<rparr>,
      ''I learned these facts about you: '' @ factsToStr ks (Data u) @ ''Until next time!'',
      False, True)"
  by (simp add: HandleText_def)




lemma handleMessage_text:
  assumes "From msg = Some uid" "Command msg = None" "Text msg \<noteq> []"
    and "getUserState b uid = (b1, us)"
    and "HandleText ks us (Text msg) = (u', reply, withKeyboard, done)"
    and "reply \<noteq> []"
  shows "handleMessage ks b msg =
     (b1\<lparr>users := (users b1)(uid \<mapsto> Some u')\<rparr>,
      Some \<lparr>OutChatID = ChatID msg, OutText = reply,
            OutMarkup = (if done then RemoveKeyboard True
                         else if withKeyboard then mainKeyboard else NoMarkup)\<rparr>)"
  using assms by (simp add: handleMessage_def)

subsection \<open>Sequences\<close>





subsection \<open>The pending category in the state typing_reply\<close>

lemma exec_typingHasChoice:
  assumes "typingHasChoice u" and "nonEmptyText e"
  shows "typingHasChoice (exec e u)"
proof (cases e)
  case (EvStart ks)
  then show ?thesis
    by (simp add: typingHasChoice_def HandleCommandStart_def Let_def states_distinct)
next
  case (EvShowData ks)
  with assms(1) show ?thesis by (simp add: HandleShowData_def)
next
  case (EvText ks t)
  with assms(2) have ne: "t \<noteq> []"
    by (simp add: nonEmptyText_def)
  have c: "typingHasChoice (fst (handleChoosing v t))" if "State v \<noteq> StateTypingReply" for v
    using that ne
    by (simp add: typingHasChoice_def handleChoosing_def Let_def states_distinct ToLower_Nil_iff
        split: option.split)
  have tc: "typingHasChoice (fst (handleTypingChoice u t))"
    using ne
    by (simp add: typingHasChoice_def handleTypingChoice_def Let_def ToLower_Nil_iff
        split: option.split)
  have tr: "typingHasChoice (fst (handleTypingReply ks u t))"
    by (simp add: typingHasChoice_def handleTypingReply_def Let_def states_distinct)
  have d: "typingHasChoice (fst (HandleText ks u ''Done''))"
    by (simp add: typingHasChoice_def HandleText_Done states_distinct)
  show ?thesis
  proof (cases "t = ''Done''")
    case True
    with d show ?thesis by (simp add: EvText)
  next
    case False
    with c [of u] c [of "u\<lparr>State := StateChoosing\<rparr>"] tc tr show ?thesis
      by (simp add: EvText HandleText_def states_distinct)
  qed
qed

lemma run_typingHasChoice:
  "typingHasChoice u \<Longrightarrow> \<forall>e \<in> set evs. nonEmptyText e \<Longrightarrow> typingHasChoice (run evs u)"
proof (induction evs arbitrary: u)
  case Nil
  then show ?case by simp
next
  case (Cons e es)
  from Cons.prems have "typingHasChoice (exec e u)" by (simp add: exec_typingHasChoice)
  with Cons show ?case by simp
qed

lemma typingHasChoice_New: "typingHasChoice NewUserState"
  by (simp add: typingHasChoice_def NewUserState_def states_distinct)

subsection \<open>Lower-cased keys and values\<close>





section \<open>The claims\<close>

subsection \<open>C1: the pending category and the state\<close>

text \<open>
  Claim C1, as stated, fails. After the text \<open>Age\<close> and then the command \<open>/start\<close> on a new
  session, \<open>Choice\<close> is \<open>age\<close> while the state is \<open>choosing\<close>: \<open>HandleCommandStart\<close>
  resets the state and leaves \<open>Choice\<close> as it is. And \<open>HandleText\<close> with the empty text in
  the state \<open>typing_choice\<close> moves to \<open>typing_reply\<close> with an empty \<open>Choice\<close> (the
  dispatcher never passes the empty text on).
\<close>

theorem C1_choice_invariant_counterexample:
  "\<not> choiceInvariant (run [EvText [] ''Age'', EvStart []] NewUserState)
   \<and> Choice (run [EvText [] ''Age'', EvStart []] NewUserState) = ''age''
   \<and> State (run [EvText [] ''Age'', EvStart []] NewUserState) = StateChoosing
   \<and> \<not> choiceInvariant (run [EvText [] ''Something else...'', EvText [] []] NewUserState)
   \<and> Choice (run [EvText [] ''Something else...'', EvText [] []] NewUserState) = []
   \<and> State (run [EvText [] ''Something else...'', EvText [] []] NewUserState) = StateTypingReply"
  by (simp add: choiceInvariant_def NewUserState_def HandleText_def handleChoosing_def
      handleTypingChoice_def HandleCommandStart_def Let_def states_distinct
      ToLower_def toLowerByte_def)

text \<open>
  Claim C1, amended. For every sequence of the operations \<open>HandleCommandStart\<close>,
  \<open>HandleShowData\<close> and \<open>HandleText\<close> in which every text is non-empty, as the dispatcher
  guarantees, a session in the state \<open>typing_reply\<close> has a non-empty \<open>Choice\<close>: this holds
  of every session reached from a new one, and every such sequence preserves it.
\<close>

theorem C1_typing_reply_has_choice:
  assumes "\<forall>e \<in> set evs. nonEmptyText e"
  shows "typingHasChoice (run evs NewUserState)
       \<and> (typingHasChoice u \<longrightarrow> typingHasChoice (run evs u))"
  using assms by (simp add: run_typingHasChoice typingHasChoice_New)

theorem C1_typing_reply_has_choice_witness:
  "nonEmptyText (EvStart []) \<and> nonEmptyText (EvText [] ''Age'')
   \<and> State (run [EvStart [], EvText [] ''Age''] NewUserState) = StateTypingReply
   \<and> Choice (run [EvStart [], EvText [] ''Age''] NewUserState) \<noteq> []"
proof -
  have ne: "\<forall>e \<in> set [EvStart [], EvText [] ''Age'']. nonEmptyText e"
    by (simp add: nonEmptyText_def)
  have st: "State (run [EvStart [], EvText [] ''Age''] NewUserState) = StateTypingReply"
    by (simp add: NewUserState_def HandleText_def handleChoosing_def HandleCommandStart_def
        Let_def)
  from C1_typing_reply_has_choice [OF ne, of NewUserState] st
  have "Choice (run [EvStart [], EvText [] ''Age''] NewUserState) \<noteq> []"
    by (simp add: typingHasChoice_def)
  with ne st show ?thesis by simp
qed

subsection \<open>C2: the terminating keyword\<close>

text \<open>
  Claim C2. In every state, \<open>HandleText\<close> with the text \<open>Done\<close> clears \<open>Choice\<close>, sets the
  state to the empty string (the terminated state), replies with the known facts followed
  by the farewell, a reply that contains \<open>I learned these facts about you\<close>, and returns
  \<open>done = true\<close>; the dispatcher then answers with the markup that removes the keyboard.
  The result does not depend on the state the session was in.
\<close>

theorem C2_done:
  "HandleText ks u ''Done'' =
     (u\<lparr>Choice := [], State := []\<rparr>,
      ''I learned these facts about you: '' @ factsToStr ks (Data u) @ ''Until next time!'',
      False, True)
   \<and> sublist ''I learned these facts about you'' (fst (snd (HandleText ks u ''Done'')))
   \<and> (iteration ks (Data u) \<longrightarrow>
        (\<forall>k v. Data u k = Some v \<longrightarrow>
           sublist (k @ '' - '' @ v) (fst (snd (HandleText ks u ''Done'')))))
   \<and> (From msg = Some uid \<and> Command msg = None \<and> Text msg = ''Done'' \<and>
      getUserState b uid = (b1, u) \<longrightarrow>
        handleMessage ks b msg =
          (b1\<lparr>users := (users b1)(uid \<mapsto> Some (u\<lparr>Choice := [], State := []\<rparr>))\<rparr>,
           Some \<lparr>OutChatID = ChatID msg,
                 OutText = ''I learned these facts about you: '' @ factsToStr ks (Data u) @
                           ''Until next time!'',
                 OutMarkup = RemoveKeyboard True\<rparr>))"
proof (intro conjI impI allI)
  show d: "HandleText ks u ''Done'' =
     (u\<lparr>Choice := [], State := []\<rparr>,
      ''I learned these facts about you: '' @ factsToStr ks (Data u) @ ''Until next time!'',
      False, True)"
    by (rule HandleText_Done)
  have "''I learned these facts about you: '' @ factsToStr ks (Data u) @ ''Until next time!'' =
        [] @ ''I learned these facts about you'' @ ('': '' @ factsToStr ks (Data u) @ ''Until next time!'')"
    by simp
  then have "sublist ''I learned these facts about you''
     (''I learned these facts about you: '' @ factsToStr ks (Data u) @ ''Until next time!'')"
    unfolding sublist_def by blast
  then show "sublist ''I learned these facts about you'' (fst (snd (HandleText ks u ''Done'')))"
    by (simp add: d)
next
  fix k v
  assume it: "iteration ks (Data u)" and kv: "Data u k = Some v"
  then have "k \<in> set ks" by (auto simp: iteration_def)
  then have "sublist (factLine (Data u) k) (factsToStr ks (Data u))"
    by (rule factLine_in_factsToStr)
  then have "sublist (factLine (Data u) k)
     (''I learned these facts about you: '' @ factsToStr ks (Data u) @ ''Until next time!'')"
    by (rule sublist_in_middle)
  with kv show "sublist (k @ '' - '' @ v) (fst (snd (HandleText ks u ''Done'')))"
    by (simp add: HandleText_Done factLine_def)
next
  assume a: "From msg = Some uid \<and> Command msg = None \<and> Text msg = ''Done'' \<and>
      getUserState b uid = (b1, u)"
  have r: "HandleText ks u (Text msg) = (u\<lparr>Choice := [], State := []\<rparr>,
      ''I learned these facts about you: '' @ factsToStr ks (Data u) @ ''Until next time!'',
      False, True)"
    using a by (simp add: HandleText_Done)
  show "handleMessage ks b msg =
          (b1\<lparr>users := (users b1)(uid \<mapsto> Some (u\<lparr>Choice := [], State := []\<rparr>))\<rparr>,
           Some \<lparr>OutChatID = ChatID msg,
                 OutText = ''I learned these facts about you: '' @ factsToStr ks (Data u) @
                           ''Until next time!'',
                 OutMarkup = RemoveKeyboard True\<rparr>)"
    using handleMessage_text[of msg uid b b1 u ks, OF _ _ _ _ r] a by simp
qed

theorem C2_done_witness:
  "iteration [''age''] (Data \<lparr>State = StateTypingReply, Data = [''age'' \<mapsto> ''30''], Choice = ''colour''\<rparr>)
   \<and> sublist ''age - 30''
        (fst (snd (HandleText [''age'']
           \<lparr>State = StateTypingReply, Data = [''age'' \<mapsto> ''30''], Choice = ''colour''\<rparr> ''Done'')))
   \<and> State (fst (HandleText [''age'']
           \<lparr>State = StateTypingReply, Data = [''age'' \<mapsto> ''30''], Choice = ''colour''\<rparr> ''Done'')) = []
   \<and> snd (handleMessage [''age'']
           \<lparr>users = [7 \<mapsto> Some \<lparr>State = StateTypingReply, Data = [''age'' \<mapsto> ''30''], Choice = ''colour''\<rparr>]\<rparr>
           \<lparr>From = Some 7, ChatID = 9, Text = ''Done'', Command = None\<rparr>) =
       Some \<lparr>OutChatID = 9,
             OutText = ''I learned these facts about you: \<newline>age - 30\<newline>Until next time!'',
             OutMarkup = RemoveKeyboard True\<rparr>"
proof -
  note c = C2_done [of "[''age'']"
      "\<lparr>State = StateTypingReply, Data = [''age'' \<mapsto> ''30''], Choice = ''colour''\<rparr>"
      "\<lparr>From = Some 7, ChatID = 9, Text = ''Done'', Command = None\<rparr>" 7
      "\<lparr>users = [7 \<mapsto> Some \<lparr>State = StateTypingReply, Data = [''age'' \<mapsto> ''30''], Choice = ''colour''\<rparr>]\<rparr>"
      "\<lparr>users = [7 \<mapsto> Some \<lparr>State = StateTypingReply, Data = [''age'' \<mapsto> ''30''], Choice = ''colour''\<rparr>]\<rparr>"]
  have it: "iteration [''age'']
      (Data \<lparr>State = StateTypingReply, Data = [''age'' \<mapsto> ''30''], Choice = ''colour''\<rparr>)"
    by (simp add: iteration_def)
  have kv: "Data \<lparr>State = StateTypingReply, Data = [''age'' \<mapsto> ''30''], Choice = ''colour''\<rparr> ''age'' = Some ''30''"
    by simp
  have 1: "sublist ''age - 30''
        (fst (snd (HandleText [''age'']
           \<lparr>State = StateTypingReply, Data = [''age'' \<mapsto> ''30''], Choice = ''colour''\<rparr> ''Done'')))"
    using c [THEN conjunct2, THEN conjunct2, THEN conjunct1, rule_format, OF it kv] by simp
  have 2: "State (fst (HandleText [''age'']
           \<lparr>State = StateTypingReply, Data = [''age'' \<mapsto> ''30''], Choice = ''colour''\<rparr> ''Done'')) = []"
    by (simp add: c [THEN conjunct1])
  have g: "getUserState \<lparr>users = [7 \<mapsto> Some \<lparr>State = StateTypingReply, Data = [''age'' \<mapsto> ''30''], Choice = ''colour''\<rparr>]\<rparr> 7
     = (\<lparr>users = [7 \<mapsto> Some \<lparr>State = StateTypingReply, Data = [''age'' \<mapsto> ''30''], Choice = ''colour''\<rparr>]\<rparr>,
        \<lparr>State = StateTypingReply, Data = [''age'' \<mapsto> ''30''], Choice = ''colour''\<rparr>)"
    by (simp add: getUserState_def)
  have f: "factsToStr [''age''] [''age'' \<mapsto> ''30''] = ''\<newline>age - 30\<newline>''"
    by (simp add: factsToStr_def factLine_def)
  have 3: "snd (handleMessage [''age'']
           \<lparr>users = [7 \<mapsto> Some \<lparr>State = StateTypingReply, Data = [''age'' \<mapsto> ''30''], Choice = ''colour''\<rparr>]\<rparr>
           \<lparr>From = Some 7, ChatID = 9, Text = ''Done'', Command = None\<rparr>) =
       Some \<lparr>OutChatID = 9,
             OutText = ''I learned these facts about you: \<newline>age - 30\<newline>Until next time!'',
             OutMarkup = RemoveKeyboard True\<rparr>"
    using c [THEN conjunct2, THEN conjunct2, THEN conjunct2] g by (simp add: f)
  from it 1 2 3 show ?thesis by blast
qed

subsection \<open>C4: loading a missing or an unparsable snapshot\<close>

text \<open>
  Claim C4. \<open>Load\<close> on a path with no file returns the empty collection and no error;
  \<open>Load\<close> on a file that the decoder rejects returns the decoder's error, and no
  collection.
\<close>

theorem C4_load:
  "(fs path = NoFile \<longrightarrow> Load unmarshal fs path = Inr Map.empty)
   \<and> (fs path = Contents b \<and> unmarshal b \<lparr>Users = Some Map.empty\<rparr> = Inl err \<longrightarrow>
        Load unmarshal fs path = Inl err)"
  by (simp add: Load_def ReadFile_def nilAsEmpty_def)

theorem C4_load_witness:
  "Load (\<lambda>b d. if b = ''{}'' then Inr d else Inl (ErrJSON ''invalid character''))
        (\<lambda>p. if p = ''conversationbot.json'' then Contents ''{users'' else NoFile)
        ''no_such_file.json'' = Inr Map.empty
   \<and> Load (\<lambda>b d. if b = ''{}'' then Inr d else Inl (ErrJSON ''invalid character''))
        (\<lambda>p. if p = ''conversationbot.json'' then Contents ''{users'' else NoFile)
        ''conversationbot.json'' = Inl (ErrJSON ''invalid character'')"
proof -
  let ?un = "\<lambda>b d. if b = ''{}'' then Inr d else Inl (ErrJSON ''invalid character'')"
  let ?fs = "\<lambda>p. if p = ''conversationbot.json'' then Contents ''{users'' else NoFile"
  have 1: "Load ?un ?fs ''no_such_file.json'' = Inr Map.empty"
    using C4_load [of ?fs "''no_such_file.json''" ?un] by simp
  have 2: "Load ?un ?fs ''conversationbot.json'' = Inl (ErrJSON ''invalid character'')"
    using C4_load [of ?fs "''conversationbot.json''" ?un "''{users''"
        "ErrJSON ''invalid character''"]
    by simp
  from 1 2 show ?thesis by simp
qed

subsection \<open>C5: keys and values are lower-cased\<close>




subsection \<open>C6: a category that is already known\<close>

text \<open>
  Claim C6. When the lower-cased text is already a key of the facts: in the state
  \<open>choosing\<close> a preset label is answered with the existing value and the session stays in
  \<open>choosing\<close>; in the state \<open>typing_choice\<close> the same text is answered with the existing
  value and the session moves to \<open>typing_reply\<close> with \<open>Choice\<close> set to the category.
\<close>

theorem C6_known_category:
  assumes "Data u (ToLower text) = Some existing"
  shows "(State u = StateChoosing \<and>
          (text = ''Age'' \<or> text = ''Favourite colour'' \<or> text = ''Number of siblings'') \<longrightarrow>
           HandleText ks u text =
             (u\<lparr>Choice := ToLower text\<rparr>,
              ''Your '' @ ToLower text @ ''? I already know the following about that: '' @ existing,
              False, False)
           \<and> State (fst (HandleText ks u text)) = StateChoosing)
       \<and> (State u = StateTypingChoice \<and> text \<noteq> ''Done'' \<longrightarrow>
           HandleText ks u text =
             (u\<lparr>Choice := ToLower text, State := StateTypingReply\<rparr>,
              ''Your '' @ ToLower text @ ''? I already know the following about that: '' @ existing,
              False, False)
           \<and> State (fst (HandleText ks u text)) = StateTypingReply
           \<and> Choice (fst (HandleText ks u text)) = ToLower text)"
proof -
  have a: "HandleText ks u text =
             (u\<lparr>Choice := ToLower text\<rparr>,
              ''Your '' @ ToLower text @ ''? I already know the following about that: '' @ existing,
              False, False)"
    if "State u = StateChoosing"
      and "text = ''Age'' \<or> text = ''Favourite colour'' \<or> text = ''Number of siblings''"
  proof -
    from that(2) have "text \<noteq> ''Done''" by auto
    with that assms show ?thesis
      by (simp add: HandleText_def handleChoosing_def Let_def)
  qed
  have b: "HandleText ks u text =
             (u\<lparr>Choice := ToLower text, State := StateTypingReply\<rparr>,
              ''Your '' @ ToLower text @ ''? I already know the following about that: '' @ existing,
              False, False)"
    if "State u = StateTypingChoice" and "text \<noteq> ''Done''"
    using that assms
    by (simp add: HandleText_def handleTypingChoice_def Let_def states_distinct)
  from a b show ?thesis by simp
qed

theorem C6_known_category_witness:
  "HandleText [''age''] \<lparr>State = StateChoosing, Data = [''age'' \<mapsto> ''30''], Choice = []\<rparr> ''Age'' =
     (\<lparr>State = StateChoosing, Data = [''age'' \<mapsto> ''30''], Choice = ''age''\<rparr>,
      ''Your age? I already know the following about that: 30'', False, False)
   \<and> HandleText [''age''] \<lparr>State = StateTypingChoice, Data = [''age'' \<mapsto> ''30''], Choice = []\<rparr> ''Age'' =
     (\<lparr>State = StateTypingReply, Data = [''age'' \<mapsto> ''30''], Choice = ''age''\<rparr>,
      ''Your age? I already know the following about that: 30'', False, False)"
proof -
  have 1: "HandleText [''age''] \<lparr>State = StateChoosing, Data = [''age'' \<mapsto> ''30''], Choice = []\<rparr> ''Age'' =
     (\<lparr>State = StateChoosing, Data = [''age'' \<mapsto> ''30''], Choice = ''age''\<rparr>,
      ''Your age? I already know the following about that: 30'', False, False)"
    using C6_known_category [of
        "\<lparr>State = StateChoosing, Data = [''age'' \<mapsto> ''30''], Choice = []\<rparr>" "''Age''" "''30''" "[''age'']"]
    by (simp add: ToLower_Age)
  have 2: "HandleText [''age''] \<lparr>State = StateTypingChoice, Data = [''age'' \<mapsto> ''30''], Choice = []\<rparr> ''Age'' =
     (\<lparr>State = StateTypingReply, Data = [''age'' \<mapsto> ''30''], Choice = ''age''\<rparr>,
      ''Your age? I already know the following about that: 30'', False, False)"
    using C6_known_category [of
        "\<lparr>State = StateTypingChoice, Data = [''age'' \<mapsto> ''30''], Choice = []\<rparr>" "''Age''" "''30''" "[''age'']"]
    by (simp add: ToLower_Age)
  from 1 2 show ?thesis by simp
qed

subsection \<open>C7: a value with no pending category\<close>

text \<open>
  Claim C7. In the state \<open>typing_reply\<close> with an empty \<open>Choice\<close>, \<open>HandleText\<close> with any text
  other than \<open>Done\<close> goes back to \<open>choosing\<close>, replies with the guidance message, asks for
  the keyboard, is not done and leaves the facts as they are; no error arises, and the
  dispatcher sends the reply with the main keyboard.
\<close>

theorem C7_no_pending_category:
  assumes "State u = StateTypingReply" and "Choice u = []" and "text \<noteq> ''Done''"
  shows "HandleText ks u text =
           (u\<lparr>State := StateChoosing\<rparr>,
            ''I am not sure what category this belongs to. Please choose one of the options.'',
            True, False)
       \<and> Data (fst (HandleText ks u text)) = Data u
       \<and> (From msg = Some uid \<and> Command msg = None \<and> Text msg = text \<and> text \<noteq> [] \<and>
          getUserState b uid = (b1, u) \<longrightarrow>
            handleMessage ks b msg =
              (b1\<lparr>users := (users b1)(uid \<mapsto> Some (u\<lparr>State := StateChoosing\<rparr>))\<rparr>,
               Some \<lparr>OutChatID = ChatID msg,
                     OutText = ''I am not sure what category this belongs to. Please choose one of the options.'',
                     OutMarkup = mainKeyboard\<rparr>))"
proof -
  have h: "HandleText ks u text =
           (u\<lparr>State := StateChoosing\<rparr>,
            ''I am not sure what category this belongs to. Please choose one of the options.'',
            True, False)"
    using assms by (simp add: HandleText_def handleTypingReply_def states_distinct)
  have m: "handleMessage ks b msg =
              (b1\<lparr>users := (users b1)(uid \<mapsto> Some (u\<lparr>State := StateChoosing\<rparr>))\<rparr>,
               Some \<lparr>OutChatID = ChatID msg,
                     OutText = ''I am not sure what category this belongs to. Please choose one of the options.'',
                     OutMarkup = mainKeyboard\<rparr>)"
    if "From msg = Some uid \<and> Command msg = None \<and> Text msg = text \<and> text \<noteq> [] \<and>
          getUserState b uid = (b1, u)"
    using handleMessage_text [of msg uid b b1 u ks "u\<lparr>State := StateChoosing\<rparr>"
        "''I am not sure what category this belongs to. Please choose one of the options.''"
        True False] that h
    by simp
  from h m show ?thesis by simp
qed

theorem C7_no_pending_category_witness:
  "HandleText [] \<lparr>State = StateTypingReply, Data = Map.empty, Choice = []\<rparr> ''30'' =
     (\<lparr>State = StateChoosing, Data = Map.empty, Choice = []\<rparr>,
      ''I am not sure what category this belongs to. Please choose one of the options.'',
      True, False)
   \<and> snd (handleMessage []
       \<lparr>users = [7 \<mapsto> Some \<lparr>State = StateTypingReply, Data = Map.empty, Choice = []\<rparr>]\<rparr>
       \<lparr>From = Some 7, ChatID = 9, Text = ''30'', Command = None\<rparr>) =
     Some \<lparr>OutChatID = 9,
           OutText = ''I am not sure what category this belongs to. Please choose one of the options.'',
           OutMarkup = mainKeyboard\<rparr>"
proof -
  let ?u = "\<lparr>State = StateTypingReply, Data = Map.empty, Choice = []\<rparr>"
  let ?b = "\<lparr>users = [7 \<mapsto> Some ?u]\<rparr>"
  let ?m = "\<lparr>From = Some 7, ChatID = 9, Text = ''30'', Command = None\<rparr>"
  have g: "getUserState ?b 7 = (?b, ?u)" by (simp add: getUserState_def)
  note c = C7_no_pending_category [of ?u "''30''" "[]" ?m 7 ?b ?b]
  have 1: "HandleText [] ?u ''30'' =
     (\<lparr>State = StateChoosing, Data = Map.empty, Choice = []\<rparr>,
      ''I am not sure what category this belongs to. Please choose one of the options.'',
      True, False)"
    using c by simp
  have 2: "snd (handleMessage [] ?b ?m) =
     Some \<lparr>OutChatID = 9,
           OutText = ''I am not sure what category this belongs to. Please choose one of the options.'',
           OutMarkup = mainKeyboard\<rparr>"
    using c g by simp
  from 1 2 show ?thesis by simp
qed

subsection \<open>C8: showing the facts twice\<close>




subsection \<open>C9: the greeting\<close>

text \<open>
  Claim C9. In every state \<open>HandleCommandStart\<close> sets the state to \<open>choosing\<close> and changes
  nothing else, so the facts stay as they are. With facts, the reply contains
  \<open>You already told me your\<close> and every known category; with none, it contains
  \<open>I will hold a more complex conversation\<close>.
\<close>

theorem C9_greet:
  "fst (HandleCommandStart ks u) = u\<lparr>State := StateChoosing\<rparr>
   \<and> Data (fst (HandleCommandStart ks u)) = Data u
   \<and> (iteration ks (Data u) \<longrightarrow>
        (Data u \<noteq> Map.empty \<longrightarrow>
           sublist ''You already told me your'' (snd (HandleCommandStart ks u)) \<and>
           (\<forall>k \<in> dom (Data u). sublist k (snd (HandleCommandStart ks u)))) \<and>
        (Data u = Map.empty \<longrightarrow>
           sublist ''I will hold a more complex conversation'' (snd (HandleCommandStart ks u))))"
proof (intro conjI impI ballI)
  show "fst (HandleCommandStart ks u) = u\<lparr>State := StateChoosing\<rparr>"
    by (simp add: HandleCommandStart_def Let_def)
  show "Data (fst (HandleCommandStart ks u)) = Data u"
    by (simp add: HandleCommandStart_def Let_def)
next
  assume it: "iteration ks (Data u)" and ne: "Data u \<noteq> Map.empty"
  then have ks: "ks \<noteq> []" by (simp add: iteration_Nil_iff)
  then have r: "snd (HandleCommandStart ks u) =
      ''Hi! My name is Doctor Botter. '' @ ''You already told me your'' @
      ('' '' @ Join ks '', '' @
       ''. Why don't you tell me something more about yourself? Or change anything I already know.'')"
    by (simp add: HandleCommandStart_def Let_def)
  show "sublist ''You already told me your'' (snd (HandleCommandStart ks u))"
    unfolding r by (rule sublist_appendI)
  fix k assume "k \<in> dom (Data u)"
  with it have "k \<in> set ks" by (simp add: iteration_def)
  then have "sublist k (Join ks '', '')" by (rule sublist_Join)
  then have "sublist k (''Hi! My name is Doctor Botter. You already told me your '' @ Join ks '', '' @
       ''. Why don't you tell me something more about yourself? Or change anything I already know.'')"
    by (rule sublist_in_middle)
  with ks show "sublist k (snd (HandleCommandStart ks u))"
    by (simp add: HandleCommandStart_def Let_def)
next
  assume it: "iteration ks (Data u)" and e: "Data u = Map.empty"
  then have ks: "ks = []" by (simp add: iteration_Nil_iff)
  have r: "snd (HandleCommandStart [] u) =
      ''Hi! My name is Doctor Botter. '' @ ''I will hold a more complex conversation'' @
      '' with you. Why don't you tell me something about yourself?''"
    by (simp add: HandleCommandStart_def Let_def)
  show "sublist ''I will hold a more complex conversation'' (snd (HandleCommandStart ks u))"
    unfolding ks r by (rule sublist_appendI)
qed

theorem C9_greet_witness:
  "iteration [] (Data NewUserState)
   \<and> sublist ''I will hold a more complex conversation'' (snd (HandleCommandStart [] NewUserState))
   \<and> iteration [''age''] (Data \<lparr>State = [], Data = [''age'' \<mapsto> ''30''], Choice = []\<rparr>)
   \<and> fst (HandleCommandStart [''age''] \<lparr>State = [], Data = [''age'' \<mapsto> ''30''], Choice = []\<rparr>) =
       \<lparr>State = StateChoosing, Data = [''age'' \<mapsto> ''30''], Choice = []\<rparr>
   \<and> sublist ''You already told me your''
       (snd (HandleCommandStart [''age''] \<lparr>State = [], Data = [''age'' \<mapsto> ''30''], Choice = []\<rparr>))
   \<and> sublist ''age''
       (snd (HandleCommandStart [''age''] \<lparr>State = [], Data = [''age'' \<mapsto> ''30''], Choice = []\<rparr>))"
proof -
  let ?u = "\<lparr>State = [], Data = [''age'' \<mapsto> ''30''], Choice = []\<rparr>"
  have i0: "iteration [] (Data NewUserState)"
    by (simp add: iteration_def NewUserState_def)
  have e0: "Data NewUserState = Map.empty"
    by (simp add: NewUserState_def)
  have i1: "iteration [''age''] (Data ?u)"
    by (simp add: iteration_def)
  have e1: "Data ?u \<noteq> Map.empty" "''age'' \<in> dom (Data ?u)"
    by simp_all
  note a = C9_greet [of "[]" NewUserState]
  note b = C9_greet [of "[''age'']" ?u]
  from a i0 e0
  have 1: "sublist ''I will hold a more complex conversation'' (snd (HandleCommandStart [] NewUserState))"
    by blast
  from b have 2: "fst (HandleCommandStart [''age''] ?u) =
       \<lparr>State = StateChoosing, Data = [''age'' \<mapsto> ''30''], Choice = []\<rparr>"
    by simp
  from b i1 e1
  have 3: "sublist ''You already told me your'' (snd (HandleCommandStart [''age''] ?u))"
    and 4: "sublist ''age'' (snd (HandleCommandStart [''age''] ?u))"
    by blast+
  from i0 1 i1 2 3 4 show ?thesis by blast
qed

subsection \<open>C10: the frame of HandleText on the facts\<close>



end
